theory Spec2Isabelle
  imports Main
begin

section \<open>Data model (airport/models.py)\<close>

text \<open>
  The rows of the tables the booking workflow touches. Integer columns are Python ints
  (\<^typ>\<open>int\<close>); primary keys are naturals. A foreign key column holds the primary key of
  the row it references. Django compares model instances by primary key, so a
  \<open>Flight\<close> instance is used through its \<open>flight_id\<close> wherever the code compares or
  hashes flights.
\<close>

record airplane =
  airplane_rows :: int
  airplane_seats_in_row :: int

record flight =
  flight_id :: nat
  flight_airplane :: airplane

record user =
  user_id :: nat
  is_staff :: bool
  is_authenticated :: bool

record order =
  order_id :: nat
  order_created_at :: int
  order_user :: nat

record ticket =
  ticket_id :: nat
  ticket_row :: int
  ticket_seat :: int
  ticket_class :: string
  ticket_price :: int
  ticket_flight :: nat
  ticket_order :: nat

text \<open>The durable store: the \<open>Order\<close> and \<open>Ticket\<close> tables, in insertion order.\<close>

record store =
  orders :: "order list"
  tickets :: "ticket list"

text \<open>
  The dict one \<open>TicketSerializer\<close> works on. A key that is absent from the dict is
  \<open>None\<close>; \<open>flight\<close> is the \<open>Flight\<close> instance that \<open>PrimaryKeyRelatedField\<close> resolved.
\<close>

record ticket_data =
  td_flight :: "flight option"
  td_row :: "int option"
  td_seat :: "int option"
  td_ticket_class :: "string option"

text \<open>The dict \<open>OrderSerializer\<close> works on: its only writable field is \<open>tickets\<close>.\<close>

record order_data =
  od_tickets :: "ticket_data list option"

text \<open>The dict \<open>FlightSerializer.validate\<close> reads; datetimes are instants on the integer line.\<close>

record flight_data =
  departure_time :: "int option"
  arrival_time :: "int option"

section \<open>Errors\<close>

text \<open>
  A \<open>serializers.ValidationError\<close> carries a message, a dict of one field and its message,
  the dict of the fields that failed with their messages, or the per-item list that a
  \<open>many=True\<close> field reports. The other constructors are the
  exceptions that are not validation errors: the storage layer's \<open>IntegrityError\<close>,
  and Python's \<open>KeyError\<close> and \<open>TypeError\<close>.
\<close>

datatype detail =
    Message string
  | FieldMessage string string
  | FieldErrors "(string \<times> string) list"
  | Items "detail option list"

datatype error =
    ValidationError detail
  | IntegrityError
  | KeyError string
  | TypeError

section \<open>Formatting integers (Python's \<open>str\<close> in the f-strings)\<close>

fun str_nat :: "nat \<Rightarrow> string" where
  "str_nat n =
     (if n < 10 then [''0123456789'' ! n]
      else str_nat (n div 10) @ [''0123456789'' ! (n mod 10)])"

declare str_nat.simps [simp del]

definition str_int :: "int \<Rightarrow> string" where
  "str_int i = (if i < 0 then CHR ''-'' # str_nat (nat (- i)) else str_nat (nat i))"

section \<open>Storage layer (the constraints declared in airport/models.py)\<close>

text \<open>
  \<open>Ticket.Meta.unique_together = ("row", "seat", "flight")\<close>: the key of the uniqueness
  constraint, and the lookup
  \<open>Ticket.objects.filter(flight=flight, row=row, seat=seat).exists()\<close>.
\<close>

definition seat_key :: "ticket \<Rightarrow> nat \<times> int \<times> int" where
  "seat_key t = (ticket_flight t, ticket_row t, ticket_seat t)"

definition seat_exists :: "store \<Rightarrow> nat \<Rightarrow> int \<Rightarrow> int \<Rightarrow> bool" where
  "seat_exists s f r st = ((f, r, st) \<in> set (map seat_key (tickets s)))"

text \<open>
  An \<open>AutoField\<close> primary key is a key that no row of the table has. The store keeps the
  rows only, so the key is taken as one more than the largest key in the table; the
  database's own counter, which also skips the keys of deleted rows, is not part of the
  store.
\<close>

definition next_id :: "nat list \<Rightarrow> nat" where
  "next_id ids = Suc (fold max ids 0)"

text \<open>
  \<open>Order.objects.create(user=user)\<close>: inserts the row, \<open>created_at\<close> set by
  \<open>auto_now_add\<close> to the current time.
\<close>

definition Order_objects_create :: "int \<Rightarrow> user \<Rightarrow> store \<Rightarrow> order \<times> store" where
  "Order_objects_create now u s =
     (let ord = \<lparr>order_id = next_id (map order_id (orders s)),
                 order_created_at = now,
                 order_user = user_id u\<rparr>
      in (ord, s\<lparr>orders := orders s @ [ord]\<rparr>))"

text \<open>
  \<open>Ticket.objects.create(order=order, **ticket_data)\<close> with \<open>ticket_data["price"]\<close>
  set. The insert raises \<open>IntegrityError\<close> when a column that is not nullable has no
  value (\<open>row\<close>, \<open>seat\<close>, \<open>flight\<close>), when a \<open>PositiveIntegerField\<close> is negative, or when
  the row breaks \<open>unique_together\<close>. A missing \<open>ticket_class\<close> takes the column default
  \<open>"economy"\<close>.
\<close>

definition Ticket_objects_create ::
  "order \<Rightarrow> ticket_data \<Rightarrow> int \<Rightarrow> store \<Rightarrow> (error + ticket) \<times> store" where
  "Ticket_objects_create ord td p s =
     (case (td_flight td, td_row td, td_seat td) of
        (Some f, Some r, Some st) \<Rightarrow>
          if r < 0 \<or> st < 0 \<or> p < 0 then (Inl IntegrityError, s)
          else if seat_exists s (flight_id f) r st then (Inl IntegrityError, s)
          else
            (let t = \<lparr>ticket_id = next_id (map ticket_id (tickets s)),
                      ticket_row = r,
                      ticket_seat = st,
                      ticket_class =
                        (case td_ticket_class td of None \<Rightarrow> ''economy'' | Some c \<Rightarrow> c),
                      ticket_price = p,
                      ticket_flight = flight_id f,
                      ticket_order = order_id ord\<rparr>
             in (Inr t, s\<lparr>tickets := tickets s @ [t]\<rparr>))
      | _ \<Rightarrow> (Inl IntegrityError, s))"

text \<open>
  \<open>with transaction.atomic():\<close> the body runs on the store; when it raises, every write
  it made is rolled back and the exception propagates.
\<close>

definition atomic ::
  "(store \<Rightarrow> (error + 'a) \<times> store) \<Rightarrow> store \<Rightarrow> (error + 'a) \<times> store" where
  "atomic body s =
     (case body s of
        (Inl e, _) \<Rightarrow> (Inl e, s)
      | (Inr v, s') \<Rightarrow> (Inr v, s'))"

text \<open>
  Deleting an order (\<open>OrderViewSet\<close> is a \<open>ModelViewSet\<close>): the tickets go with it,
  \<open>on_delete=models.CASCADE\<close>.
\<close>

definition Order_delete :: "nat \<Rightarrow> store \<Rightarrow> store" where
  "Order_delete oid s =
     s\<lparr>orders := filter (\<lambda>ord. order_id ord \<noteq> oid) (orders s),
       tickets := filter (\<lambda>t. ticket_order t \<noteq> oid) (tickets s)\<rparr>"

section \<open>TicketSerializer.validate (airport/serializers.py)\<close>

text \<open>Python truthiness of \<open>data.get(...)\<close>: \<open>None\<close> and \<open>0\<close> are falsy, a model instance is truthy.\<close>

definition truthy_int :: "int option \<Rightarrow> bool" where
  "truthy_int v = (case v of None \<Rightarrow> False | Some n \<Rightarrow> n \<noteq> 0)"

definition truthy_obj :: "'a option \<Rightarrow> bool" where
  "truthy_obj v = (case v of None \<Rightarrow> False | Some _ \<Rightarrow> True)"

definition TicketSerializer_validate :: "store \<Rightarrow> ticket_data \<Rightarrow> error + ticket_data" where
  "TicketSerializer_validate s data =
     (if \<not> (truthy_obj (td_flight data) \<and> truthy_int (td_row data) \<and> truthy_int (td_seat data))
      then Inl (ValidationError (Message ''Flight, row, and seat must be provided.''))
      else
        (case (td_flight data, td_row data, td_seat data) of
           (Some flight, Some row, Some seat) \<Rightarrow>
             if seat_exists s (flight_id flight) row seat
             then Inl (ValidationError
                    (FieldMessage ''seat'' ''This seat is already taken for the selected flight.''))
             else
               (let airplane = flight_airplane flight in
                if row < 1 \<or> row > airplane_rows airplane
                then Inl (ValidationError (Message
                       (''Row number must be between 1 and '' @
                        str_int (airplane_rows airplane) @ ''.'')))
                else if seat < 1 \<or> seat > airplane_seats_in_row airplane
                then Inl (ValidationError (Message
                       (''Seat number must be between 1 and '' @
                        str_int (airplane_seats_in_row airplane) @ ''.'')))
                else Inr data)
         | _ \<Rightarrow> Inl (ValidationError (Message ''Flight, row, and seat must be provided.''))))"

section \<open>FlightSerializer.validate\<close>

text \<open>
  \<open>now\<close> is \<open>timezone.now()\<close>. A datetime is always truthy, so \<open>departure_time and
  arrival_time\<close> tests presence. The second comparison is not guarded: with
  \<open>departure_time\<close> absent, \<open>None < timezone.now()\<close> raises \<open>TypeError\<close>.
\<close>

definition FlightSerializer_validate :: "int \<Rightarrow> flight_data \<Rightarrow> error + flight_data" where
  "FlightSerializer_validate now data =
     (if (case (departure_time data, arrival_time data) of
            (Some d, Some a) \<Rightarrow> d \<ge> a
          | _ \<Rightarrow> False)
      then Inl (ValidationError (Message ''Arrival time must be after departure time.''))
      else
        (case departure_time data of
           None \<Rightarrow> Inl TypeError
         | Some d \<Rightarrow>
             if d < now
             then Inl (ValidationError (Message ''The time of departure cannot be in the past''))
             else Inr data))"

section \<open>OrderSerializer\<close>

text \<open>
  \<open>OrderSerializer.validate\<close>: \<open>flight_ids\<close> is the set of the tickets' flights;
  \<open>ticket["flight"]\<close> raises \<open>KeyError\<close> on a dict without that key.
\<close>

definition OrderSerializer_validate :: "order_data \<Rightarrow> error + order_data" where
  "OrderSerializer_validate data =
     (case od_tickets data of
        None \<Rightarrow> Inr data
      | Some tickets_data \<Rightarrow>
          if tickets_data = [] then Inr data
          else
            (case those (map td_flight tickets_data) of
               None \<Rightarrow> Inl (KeyError ''flight'')
             | Some fs \<Rightarrow>
                 if length (remdups (map flight_id fs)) > 1
                 then Inl (ValidationError (Message ''All tickets must be in the same flight.''))
                 else Inr data))"

text \<open>The \<open>price_mapping\<close> dict of \<open>OrderSerializer.create\<close> and the two \<open>.get\<close> lookups.\<close>

definition price_mapping :: "string \<rightharpoonup> int" where
  "price_mapping = [''economy'' \<mapsto> 100, ''business'' \<mapsto> 200, ''first'' \<mapsto> 300]"

definition price_for :: "string option \<Rightarrow> int" where
  "price_for tc =
     (let ticket_class = (case tc of None \<Rightarrow> ''economy'' | Some c \<Rightarrow> c)
      in case price_mapping ticket_class of None \<Rightarrow> 100 | Some p \<Rightarrow> p)"

text \<open>The \<open>for ticket_data in tickets_data\<close> loop: the first insert that raises ends it.\<close>

fun create_tickets :: "order \<Rightarrow> ticket_data list \<Rightarrow> store \<Rightarrow> (error + unit) \<times> store" where
  "create_tickets ord [] s = (Inr (), s)"
| "create_tickets ord (td # tds) s =
     (case Ticket_objects_create ord td (price_for (td_ticket_class td)) s of
        (Inl e, s') \<Rightarrow> (Inl e, s')
      | (Inr t, s') \<Rightarrow> create_tickets ord tds s')"

text \<open>
  \<open>OrderSerializer.create\<close>: \<open>validated_data.pop("tickets")\<close> raises \<open>KeyError\<close> when the
  key is absent; \<open>u\<close> is \<open>self.context["request"].user\<close>.
\<close>

definition OrderSerializer_create ::
  "int \<Rightarrow> user \<Rightarrow> order_data \<Rightarrow> store \<Rightarrow> (error + order) \<times> store" where
  "OrderSerializer_create now u validated_data s =
     (case od_tickets validated_data of
        None \<Rightarrow> (Inl (KeyError ''tickets''), s)
      | Some tickets_data \<Rightarrow>
          atomic
            (\<lambda>s0. case Order_objects_create now u s0 of
                     (ord, s1) \<Rightarrow>
                       (case create_tickets ord tickets_data s1 of
                          (Inl e, s2) \<Rightarrow> (Inl e, s2)
                        | (Inr _, s2) \<Rightarrow> (Inr ord, s2)))
            s)"

section \<open>TicketSerializer.run_validation\<close>

text \<open>
  What rest_framework runs for one ticket before the class's own \<open>validate\<close>: the
  fields that the \<open>ModelSerializer\<close> builds from \<open>Ticket\<close>, in the order of
  \<open>Meta.fields\<close> (\<open>id\<close>, \<open>price\<close> and \<open>order\<close> are read-only and take no input),
  then the \<open>UniqueTogetherValidator\<close> built from \<open>Meta.unique_together\<close>.

  \<open>row\<close> and \<open>seat\<close> are \<open>PositiveIntegerField\<close>s: required integer fields with
  \<open>min_value=0\<close> and the largest value \<open>max_value\<close> of the database's integer column,
  which the repository does not fix and the model takes as a parameter.
  \<open>ticket_class\<close> has a default, so it may be absent; when present it must be a key of
  \<open>TICKET_CLASS_CHOICES\<close>. \<open>flight\<close> is required. The conversion of the JSON values
  (an integer from its text, the \<open>Flight\<close> from its primary key) is not modelled: a
  \<open>ticket_data\<close> holds the converted values.
\<close>

definition TICKET_CLASS_CHOICES :: "string list" where
  "TICKET_CLASS_CHOICES = [''economy'', ''business'', ''first'']"

definition IntegerField_run_validation ::
  "int \<Rightarrow> string \<Rightarrow> int option \<Rightarrow> (string \<times> string) list" where
  "IntegerField_run_validation max_value name v =
     (case v of
        None \<Rightarrow> [(name, ''This field is required.'')]
      | Some n \<Rightarrow>
          (if n > max_value
           then [(name, ''Ensure this value is less than or equal to '' @
                        str_int max_value @ ''.'')]
           else []) @
          (if n < 0
           then [(name, ''Ensure this value is greater than or equal to 0.'')]
           else []))"

definition ChoiceField_run_validation ::
  "string list \<Rightarrow> string \<Rightarrow> string option \<Rightarrow> (string \<times> string) list" where
  "ChoiceField_run_validation choices name v =
     (case v of
        None \<Rightarrow> []
      | Some c \<Rightarrow>
          if c \<in> set choices then []
          else [(name, CHR 0x22 # c @ CHR 0x22 # '' is not a valid choice.'')])"

definition RelatedField_run_validation ::
  "string \<Rightarrow> 'a option \<Rightarrow> (string \<times> string) list" where
  "RelatedField_run_validation name v =
     (case v of
        None \<Rightarrow> [(name, ''This field is required.'')]
      | Some _ \<Rightarrow> [])"

text \<open>\<open>to_internal_value\<close>: every field is run, and the errors are raised together.\<close>

definition TicketSerializer_to_internal_value ::
  "int \<Rightarrow> ticket_data \<Rightarrow> error + ticket_data" where
  "TicketSerializer_to_internal_value max_value data =
     (let errors =
            IntegerField_run_validation max_value ''row'' (td_row data) @
            IntegerField_run_validation max_value ''seat'' (td_seat data) @
            ChoiceField_run_validation TICKET_CLASS_CHOICES ''ticket_class''
              (td_ticket_class data) @
            RelatedField_run_validation ''flight'' (td_flight data)
      in if errors = [] then Inr data else Inl (ValidationError (FieldErrors errors)))"

text \<open>
  \<open>UniqueTogetherValidator(queryset=Ticket.objects.all(), fields=("row", "seat",
  "flight"))\<close>: the three fields must be there, and no persisted ticket may have the same
  three values.
\<close>

definition UniqueTogetherValidator :: "store \<Rightarrow> ticket_data \<Rightarrow> error + unit" where
  "UniqueTogetherValidator s attrs =
     (let missing =
            (if td_row attrs = None then [(''row'', ''This field is required.'')] else []) @
            (if td_seat attrs = None then [(''seat'', ''This field is required.'')] else []) @
            (if td_flight attrs = None then [(''flight'', ''This field is required.'')] else [])
      in if missing \<noteq> [] then Inl (ValidationError (FieldErrors missing))
         else
           (case (td_flight attrs, td_row attrs, td_seat attrs) of
              (Some f, Some r, Some st) \<Rightarrow>
                if seat_exists s (flight_id f) r st
                then Inl (ValidationError
                       (Message ''The fields row, seat, flight must make a unique set.''))
                else Inr ()
            | _ \<Rightarrow> Inr ()))"

text \<open>
  \<open>Serializer.run_validation\<close>: the fields, then the validators, then \<open>validate\<close>; the
  first of the three that raises ends it.
\<close>

definition TicketSerializer_run_validation ::
  "int \<Rightarrow> store \<Rightarrow> ticket_data \<Rightarrow> error + ticket_data" where
  "TicketSerializer_run_validation max_value s data =
     (case TicketSerializer_to_internal_value max_value data of
        Inl e \<Rightarrow> Inl e
      | Inr value \<Rightarrow>
          (case UniqueTogetherValidator s value of
             Inl e \<Rightarrow> Inl e
           | Inr _ \<Rightarrow> TicketSerializer_validate s value))"

section \<open>The request path of \<open>POST /order/\<close>\<close>

text \<open>
  rest_framework's \<open>ListSerializer\<close> runs a \<open>many=True\<close> field: an empty list is
  refused only when the field was declared with \<open>allow_empty=False\<close>; otherwise every
  item goes through the child serializer, whose \<open>ValidationError\<close> is kept as the error
  of that item (any other exception propagates), and the per-item errors are raised
  together when there is one. \<open>run_child_validation\<close> is that loop, with the validated
  items \<open>ret\<close> and the per-item \<open>errors\<close>.
\<close>

fun run_child_validation ::
  "('a \<Rightarrow> error + 'b) \<Rightarrow> 'a list \<Rightarrow> error + ('b list \<times> detail option list)" where
  "run_child_validation child [] = Inr ([], [])"
| "run_child_validation child (item # data) =
     (case child item of
        Inl (ValidationError d) \<Rightarrow>
          (case run_child_validation child data of
             Inl e \<Rightarrow> Inl e
           | Inr (ret, errors) \<Rightarrow> Inr (ret, Some d # errors))
      | Inl e \<Rightarrow> Inl e
      | Inr validated \<Rightarrow>
          (case run_child_validation child data of
             Inl e \<Rightarrow> Inl e
           | Inr (ret, errors) \<Rightarrow> Inr (validated # ret, None # errors)))"

definition ListSerializer_run_validation ::
  "bool \<Rightarrow> ('a \<Rightarrow> error + 'b) \<Rightarrow> 'a list \<Rightarrow> error + 'b list" where
  "ListSerializer_run_validation allow_empty child data =
     (if \<not> allow_empty \<and> data = []
      then Inl (ValidationError (Message ''This list may not be empty.''))
      else
        (case run_child_validation child data of
           Inl e \<Rightarrow> Inl e
         | Inr (ret, errors) \<Rightarrow>
             if list_ex (\<lambda>e. e \<noteq> None) errors
             then Inl (ValidationError (Items errors))
             else Inr ret))"

text \<open>
  \<open>OrderSerializer(...).is_valid()\<close>. The field \<open>tickets =
  TicketSerializer(many=True, write_only=True)\<close> is required and takes the default
  \<open>allow_empty=True\<close>; the \<open>allow_empty=False\<close> of the class is on the read-only field
  \<open>order_tickets\<close>, which takes no input. The field is validated first, each ticket by
  \<open>TicketSerializer.run_validation\<close>; then \<open>OrderSerializer.validate\<close> runs on the
  validated data.
\<close>

definition tickets_allow_empty :: bool where
  "tickets_allow_empty = True"

definition OrderSerializer_is_valid ::
  "int \<Rightarrow> store \<Rightarrow> order_data \<Rightarrow> error + order_data" where
  "OrderSerializer_is_valid max_value s data =
     (case od_tickets data of
        None \<Rightarrow> Inl (ValidationError (FieldMessage ''tickets'' ''This field is required.''))
      | Some ts \<Rightarrow>
          (case ListSerializer_run_validation tickets_allow_empty
                  (TicketSerializer_run_validation max_value s) ts of
             Inl e \<Rightarrow> Inl e
           | Inr ts' \<Rightarrow> OrderSerializer_validate (data\<lparr>od_tickets := Some ts'\<rparr>)))"

text \<open>
  \<open>OrderViewSet.create\<close> (the \<open>ModelViewSet\<close> default):
  \<open>serializer.is_valid(raise_exception=True)\<close>, then \<open>serializer.save()\<close>.
\<close>

definition OrderViewSet_create ::
  "int \<Rightarrow> int \<Rightarrow> user \<Rightarrow> order_data \<Rightarrow> store \<Rightarrow> (error + order) \<times> store" where
  "OrderViewSet_create max_value now u data s =
     (case OrderSerializer_is_valid max_value s data of
        Inl e \<Rightarrow> (Inl e, s)
      | Inr validated_data \<Rightarrow> OrderSerializer_create now u validated_data s)"

section \<open>OrderViewSet.get_queryset (airport/views.py)\<close>

text \<open>
  \<open>Order.Meta.ordering = ["-created_at"]\<close>: a queryset of orders comes latest first
  (orders of the same instant are left in the order of the table).
\<close>

definition Order_ordering :: "order list \<Rightarrow> order list" where
  "Order_ordering xs = sort_key (\<lambda>ord. - order_created_at ord) xs"

text \<open>
  \<open>queryset.filter(user=self.request.user).distinct()\<close>, \<open>queryset.none()\<close> and
  \<open>queryset.distinct()\<close>; retrieval looks the primary key up in that queryset.
\<close>

definition get_queryset :: "user \<Rightarrow> store \<Rightarrow> order list" where
  "get_queryset u s =
     (if \<not> is_staff u then
        (if is_authenticated u
         then Order_ordering
                (remdups (filter (\<lambda>ord. order_user ord = user_id u) (orders s)))
         else [])
      else Order_ordering (remdups (orders s)))"

definition get_object :: "user \<Rightarrow> nat \<Rightarrow> store \<Rightarrow> order option" where
  "get_object u pk s = find (\<lambda>ord. order_id ord = pk) (get_queryset u s)"

section \<open>Reachable stores\<close>

text \<open>
  The stores the modelled operations produce from the empty one: a booking request, a
  direct call of \<open>OrderSerializer.create\<close>, a single ticket insert (the admin site
  registers \<open>Ticket\<close>), and the deletion of an order.
\<close>

definition seats_unique :: "store \<Rightarrow> bool" where
  "seats_unique s = distinct (map seat_key (tickets s))"

inductive reachable :: "store \<Rightarrow> bool" where
  init: "reachable \<lparr>orders = [], tickets = []\<rparr>"
| book: "reachable s \<Longrightarrow> reachable (snd (OrderViewSet_create max_value now u data s))"
| create: "reachable s \<Longrightarrow> reachable (snd (OrderSerializer_create now u data s))"
| insert: "reachable s \<Longrightarrow> reachable (snd (Ticket_objects_create ord td p s))"
| delete: "reachable s \<Longrightarrow> reachable (Order_delete oid s)"

section \<open>Vocabulary of the properties\<close>

text \<open>The seat a ticket request asks for, as the uniqueness constraint sees it.\<close>

definition request_key :: "ticket_data \<Rightarrow> nat option \<times> int option \<times> int option" where
  "request_key td = (map_option flight_id (td_flight td), td_row td, td_seat td)"

text \<open>The flight ids a list of ticket requests references.\<close>

definition referenced_flights :: "ticket_data list \<Rightarrow> nat set" where
  "referenced_flights tds = flight_id ` (\<Union>td \<in> set tds. set_option (td_flight td))"

text \<open>The row \<open>t\<close> is the ticket that \<open>OrderSerializer.create\<close> stores for the request \<open>td\<close> under the order \<open>ord\<close>.\<close>

definition ticket_of :: "order \<Rightarrow> ticket_data \<Rightarrow> ticket \<Rightarrow> bool" where
  "ticket_of ord td t =
     (map_option flight_id (td_flight td) = Some (ticket_flight t) \<and>
      td_row td = Some (ticket_row t) \<and>
      td_seat td = Some (ticket_seat t) \<and>
      ticket_class t = (case td_ticket_class td of None \<Rightarrow> ''economy'' | Some c \<Rightarrow> c) \<and>
      ticket_price t = price_for (td_ticket_class td) \<and>
      ticket_order t = order_id ord)"

text \<open>
  The outcome \<open>res\<close> of an order creation on the store \<open>s\<close> is all or nothing: on an
  error the store is \<open>s\<close>; on success the store is \<open>s\<close> with the order appended and,
  after the tickets of \<open>s\<close>, one ticket for each request, in order.
\<close>

definition all_or_nothing ::
  "user \<Rightarrow> order_data \<Rightarrow> store \<Rightarrow> (error + order) \<times> store \<Rightarrow> bool" where
  "all_or_nothing u data s res =
     (case res of
        (Inl e, s') \<Rightarrow> s' = s
      | (Inr ord, s') \<Rightarrow>
          (case od_tickets data of
             None \<Rightarrow> False
           | Some tds \<Rightarrow>
               orders s' = orders s @ [ord] \<and>
               order_user ord = user_id u \<and>
               take (length (tickets s)) (tickets s') = tickets s \<and>
               list_all2 (ticket_of ord) tds (drop (length (tickets s)) (tickets s'))))"

section \<open>The storage layer and the insert loop\<close>

lemma Ticket_objects_create_Inr:
  assumes "Ticket_objects_create ord td p s = (Inr t, s')"
  shows "tickets s' = tickets s @ [t]" and "orders s' = orders s"
    and "seat_key t \<notin> set (map seat_key (tickets s))"
    and "request_key td = (Some (ticket_flight t), Some (ticket_row t), Some (ticket_seat t))"
    and "ticket_class t = (case td_ticket_class td of None \<Rightarrow> ''economy'' | Some c \<Rightarrow> c)"
    and "ticket_price t = p" and "ticket_order t = order_id ord"
  using assms
  by (auto simp: Ticket_objects_create_def seat_exists_def seat_key_def request_key_def Let_def
      split: option.splits if_splits)

lemma Ticket_objects_create_Inl:
  assumes "Ticket_objects_create ord td p s = (Inl e, s')"
  shows "e = IntegrityError" and "s' = s"
  using assms
  by (auto simp: Ticket_objects_create_def Let_def split: option.splits if_splits)

lemma Ticket_objects_create_taken:
  assumes "request_key td = (Some f, Some r, Some st)" and "seat_exists s f r st"
  shows "Ticket_objects_create ord td p s = (Inl IntegrityError, s)"
  using assms
  by (auto simp: Ticket_objects_create_def request_key_def split: option.splits)

lemma Ticket_objects_create_unique:
  assumes "seats_unique s"
  shows "seats_unique (snd (Ticket_objects_create ord td p s))"
proof (cases "Ticket_objects_create ord td p s")
  case (Pair r s')
  show ?thesis
  proof (cases r)
    case (Inl e)
    with Pair assms Ticket_objects_create_Inl(2) show ?thesis by fastforce
  next
    case (Inr t)
    with Pair have "tickets s' = tickets s @ [t]"
      and "seat_key t \<notin> set (map seat_key (tickets s))"
      using Ticket_objects_create_Inr by blast+
    with assms Pair show ?thesis by (simp add: seats_unique_def)
  qed
qed

lemma create_tickets_Inl:
  "create_tickets ord tds s = (Inl e, s') \<Longrightarrow> e = IntegrityError"
proof (induction tds arbitrary: s)
  case Nil
  then show ?case by simp
next
  case (Cons td tds)
  then show ?case
    by (auto split: prod.splits sum.splits dest: Ticket_objects_create_Inl)
qed

lemma create_tickets_unique:
  "seats_unique s \<Longrightarrow> seats_unique (snd (create_tickets ord tds s))"
proof (induction tds arbitrary: s)
  case Nil
  then show ?case by simp
next
  case (Cons td tds)
  obtain r s1 where step: "Ticket_objects_create ord td (price_for (td_ticket_class td)) s = (r, s1)"
    by (cases "Ticket_objects_create ord td (price_for (td_ticket_class td)) s")
  from Cons.prems have u: "seats_unique s1"
    using Ticket_objects_create_unique [of s ord td "price_for (td_ticket_class td)"] step by simp
  show ?case
  proof (cases r)
    case (Inl e)
    with step u show ?thesis by simp
  next
    case (Inr t)
    with step Cons.IH [OF u] show ?thesis by simp
  qed
qed

lemma create_tickets_Inr:
  "create_tickets ord tds s = (Inr v, s') \<Longrightarrow>
     orders s' = orders s \<and>
     (\<exists>new. tickets s' = tickets s @ new \<and> list_all2 (ticket_of ord) tds new)"
proof (induction tds arbitrary: s)
  case Nil
  then show ?case by simp
next
  case (Cons td tds)
  from Cons.prems obtain t s1 where
    step: "Ticket_objects_create ord td (price_for (td_ticket_class td)) s = (Inr t, s1)"
    and rest: "create_tickets ord tds s1 = (Inr v, s')"
    by (auto split: prod.splits sum.splits)
  from Ticket_objects_create_Inr [OF step]
  have t1: "tickets s1 = tickets s @ [t]" and o1: "orders s1 = orders s"
    and tof: "ticket_of ord td t"
    by (simp_all add: ticket_of_def request_key_def)
  from Cons.IH [OF rest] obtain new where
    "orders s' = orders s1" "tickets s' = tickets s1 @ new" "list_all2 (ticket_of ord) tds new"
    by blast
  with t1 o1 tof have "orders s' = orders s" "tickets s' = tickets s @ (t # new)"
    "list_all2 (ticket_of ord) (td # tds) (t # new)"
    by simp_all
  then show ?case by blast
qed

text \<open>A request for a seat the store already holds makes the loop fail.\<close>

lemma create_tickets_taken:
  assumes "td \<in> set tds" and "request_key td = (Some f, Some r, Some st)"
    and "seat_exists s f r st"
  shows "fst (create_tickets ord tds s) = Inl IntegrityError"
  using assms
proof (induction tds arbitrary: s)
  case Nil
  then show ?case by simp
next
  case (Cons x tds)
  obtain res s1 where step: "Ticket_objects_create ord x (price_for (td_ticket_class x)) s = (res, s1)"
    by (cases "Ticket_objects_create ord x (price_for (td_ticket_class x)) s")
  show ?case
  proof (cases res)
    case (Inl e)
    with step Ticket_objects_create_Inl(1) [of ord x _ s e s1] show ?thesis by simp
  next
    case (Inr t)
    with step have ins: "Ticket_objects_create ord x (price_for (td_ticket_class x)) s = (Inr t, s1)"
      by simp
    have "td \<noteq> x"
    proof
      assume "td = x"
      with Cons.prems(2,3) Ticket_objects_create_taken [of x f r st s ord]
      show False using ins by simp
    qed
    with Cons.prems(1) have mem: "td \<in> set tds" by simp
    from Ticket_objects_create_Inr(1) [OF ins] Cons.prems(3)
    have "seat_exists s1 f r st" by (simp add: seat_exists_def)
    from Cons.IH [OF mem Cons.prems(2) this] ins show ?thesis by simp
  qed
qed

lemma create_tickets_duplicate:
  assumes "\<not> distinct (map request_key tds)"
  shows "fst (create_tickets ord tds s) = Inl IntegrityError"
  using assms
proof (induction tds arbitrary: s)
  case Nil
  then show ?case by simp
next
  case (Cons x tds)
  obtain res s1 where step: "Ticket_objects_create ord x (price_for (td_ticket_class x)) s = (res, s1)"
    by (cases "Ticket_objects_create ord x (price_for (td_ticket_class x)) s")
  show ?case
  proof (cases res)
    case (Inl e)
    with step Ticket_objects_create_Inl(1) [of ord x _ s e s1] show ?thesis by simp
  next
    case (Inr t)
    with step have ins: "Ticket_objects_create ord x (price_for (td_ticket_class x)) s = (Inr t, s1)"
      by simp
    note facts = Ticket_objects_create_Inr [OF ins]
    show ?thesis
    proof (cases "distinct (map request_key tds)")
      case False
      from Cons.IH [OF this] ins show ?thesis by simp
    next
      case True
      with Cons.prems obtain td where mem: "td \<in> set tds" and same: "request_key td = request_key x"
        by auto
      have "seat_exists s1 (ticket_flight t) (ticket_row t) (ticket_seat t)"
        using facts(1) by (simp add: seat_exists_def seat_key_def)
      from create_tickets_taken [OF mem _ this, of ord] same facts(4) ins
      show ?thesis by simp
    qed
  qed
qed

section \<open>Order creation and the request path\<close>

lemma OrderSerializer_create_cases:
  obtains (no_tickets) "od_tickets data = None"
      "OrderSerializer_create now u data s = (Inl (KeyError ''tickets''), s)"
  | (rolled_back) tds ord s1 s2 where "od_tickets data = Some tds"
      "Order_objects_create now u s = (ord, s1)"
      "create_tickets ord tds s1 = (Inl IntegrityError, s2)"
      "OrderSerializer_create now u data s = (Inl IntegrityError, s)"
  | (committed) tds ord s1 s2 where "od_tickets data = Some tds"
      "Order_objects_create now u s = (ord, s1)"
      "create_tickets ord tds s1 = (Inr (), s2)"
      "OrderSerializer_create now u data s = (Inr ord, s2)"
proof (cases "od_tickets data")
  case None
  then show ?thesis using no_tickets by (simp add: OrderSerializer_create_def)
next
  case (Some tds)
  obtain ord s1 where oc: "Order_objects_create now u s = (ord, s1)"
    by (cases "Order_objects_create now u s")
  obtain r s2 where ct: "create_tickets ord tds s1 = (r, s2)"
    by (cases "create_tickets ord tds s1")
  show ?thesis
  proof (cases r)
    case (Inl e)
    with ct create_tickets_Inl have "e = IntegrityError" by blast
    with Inl ct oc Some show ?thesis
      using rolled_back by (simp add: OrderSerializer_create_def atomic_def)
  next
    case (Inr v)
    with ct oc Some show ?thesis
      using committed by (simp add: OrderSerializer_create_def atomic_def)
  qed
qed

lemma Order_objects_create_eq:
  "Order_objects_create now u s = (ord, s1) \<Longrightarrow>
     orders s1 = orders s @ [ord] \<and> tickets s1 = tickets s \<and> order_user ord = user_id u"
  by (auto simp: Order_objects_create_def Let_def)

lemma OrderSerializer_create_unique:
  assumes "seats_unique s"
  shows "seats_unique (snd (OrderSerializer_create now u data s))"
proof (cases rule: OrderSerializer_create_cases [of data now u s])
  case no_tickets
  with assms show ?thesis by simp
next
  case (rolled_back tds ord s1 s2)
  with assms show ?thesis by simp
next
  case (committed tds ord s1 s2)
  from committed(2) assms have "seats_unique s1"
    using Order_objects_create_eq by (fastforce simp: seats_unique_def)
  from create_tickets_unique [OF this, of ord tds] committed show ?thesis by simp
qed

lemma OrderSerializer_create_all_or_nothing:
  "all_or_nothing u data s (OrderSerializer_create now u data s)"
proof (cases rule: OrderSerializer_create_cases [of data now u s])
  case no_tickets
  then show ?thesis by (simp add: all_or_nothing_def)
next
  case (rolled_back tds ord s1 s2)
  then show ?thesis by (simp add: all_or_nothing_def)
next
  case (committed tds ord s1 s2)
  from Order_objects_create_eq [OF committed(2)]
  have o1: "orders s1 = orders s @ [ord]" and t1: "tickets s1 = tickets s"
    and ou: "order_user ord = user_id u" by simp_all
  from create_tickets_Inr [OF committed(3)] obtain new where
    "orders s2 = orders s1" "tickets s2 = tickets s1 @ new" "list_all2 (ticket_of ord) tds new"
    by blast
  with o1 t1 ou committed(1,4) show ?thesis by (simp add: all_or_nothing_def)
qed

lemma TicketSerializer_validate_result:
  "TicketSerializer_validate s td = Inr v \<Longrightarrow> v = td"
  "TicketSerializer_validate s td = Inl e \<Longrightarrow> \<exists>d. e = ValidationError d"
  by (auto simp: TicketSerializer_validate_def Let_def split: if_splits option.splits)

lemma TicketSerializer_validate_Inr:
  "TicketSerializer_validate s td = Inr v \<Longrightarrow> td_flight td \<noteq> None"
  by (cases "td_flight td") (simp_all add: TicketSerializer_validate_def truthy_obj_def)

lemma TicketSerializer_to_internal_value_result:
  "TicketSerializer_to_internal_value max_value td = Inr v \<Longrightarrow> v = td"
  "TicketSerializer_to_internal_value max_value td = Inl e \<Longrightarrow> \<exists>d. e = ValidationError d"
  by (auto simp: TicketSerializer_to_internal_value_def Let_def split: if_splits)

lemma UniqueTogetherValidator_Inl:
  "UniqueTogetherValidator s td = Inl e \<Longrightarrow> \<exists>d. e = ValidationError d"
  by (auto simp: UniqueTogetherValidator_def Let_def split: if_splits option.splits)

text \<open>
  One ticket on the request path: what passes is returned as it came and has passed
  \<open>validate\<close>; what fails, fails with a validation error.
\<close>

lemma TicketSerializer_run_validation_Inr:
  assumes "TicketSerializer_run_validation max_value s td = Inr v"
  shows "v = td" and "TicketSerializer_validate s td = Inr td" and "td_flight td \<noteq> None"
proof -
  from assms obtain attrs where
    f: "TicketSerializer_to_internal_value max_value td = Inr attrs"
    and v: "TicketSerializer_validate s attrs = Inr v"
    by (auto simp: TicketSerializer_run_validation_def split: sum.splits)
  from f have "attrs = td" by (rule TicketSerializer_to_internal_value_result)
  with v TicketSerializer_validate_result(1) [of s td v]
  show "v = td" and "TicketSerializer_validate s td = Inr td" by simp_all
  then show "td_flight td \<noteq> None" using TicketSerializer_validate_Inr by blast
qed

lemma TicketSerializer_run_validation_Inl:
  assumes "TicketSerializer_run_validation max_value s td = Inl e"
  shows "\<exists>d. e = ValidationError d"
  using assms TicketSerializer_to_internal_value_result(2) [of max_value td e]
    UniqueTogetherValidator_Inl [of s _ e] TicketSerializer_validate_result(2) [of s _ e]
  by (auto simp: TicketSerializer_run_validation_def split: sum.splits)

text \<open>
  The loop over a child that raises validation errors only and returns its input: it
  never propagates an exception, \<open>ret\<close> holds the items that passed, and \<open>errors\<close>
  has an entry exactly for the items that did not.
\<close>

lemma run_child_validation_items:
  assumes "\<And>x v. child x = Inr v \<Longrightarrow> v = x"
    and "\<And>x e. child x = Inl e \<Longrightarrow> \<exists>d. e = ValidationError d"
  shows "\<exists>errors. run_child_validation child xs =
            Inr (filter (\<lambda>x. \<exists>y. child x = Inr y) xs, errors) \<and>
          list_ex (\<lambda>e. e \<noteq> None) errors = (\<not> list_all (\<lambda>x. \<exists>y. child x = Inr y) xs)"
proof (induction xs)
  case Nil
  show ?case by simp
next
  case (Cons x xs)
  then obtain errors where
    run: "run_child_validation child xs = Inr (filter (\<lambda>x. \<exists>y. child x = Inr y) xs, errors)"
    and ex: "list_ex (\<lambda>e. e \<noteq> None) errors = (\<not> list_all (\<lambda>x. \<exists>y. child x = Inr y) xs)"
    by blast
  show ?case
  proof (cases "child x")
    case (Inl e)
    with assms(2) obtain d where "child x = Inl (ValidationError d)" by blast
    with run ex show ?thesis by simp
  next
    case (Inr v)
    with assms(1) have "child x = Inr x" by blast
    with run ex show ?thesis by simp
  qed
qed

lemma tickets_run_validation:
  "ListSerializer_run_validation b (TicketSerializer_run_validation max_value s) xs =
     (if \<not> b \<and> xs = []
      then Inl (ValidationError (Message ''This list may not be empty.''))
      else if list_all (\<lambda>x. \<exists>y. TicketSerializer_run_validation max_value s x = Inr y) xs
      then Inr xs
      else Inl (ValidationError (Items
             (snd (projr (run_child_validation
                (TicketSerializer_run_validation max_value s) xs))))))"
proof -
  from run_child_validation_items [of "TicketSerializer_run_validation max_value s" xs]
  obtain errors where
    run: "run_child_validation (TicketSerializer_run_validation max_value s) xs =
            Inr (filter (\<lambda>x. \<exists>y. TicketSerializer_run_validation max_value s x = Inr y) xs,
                 errors)"
    and ex: "list_ex (\<lambda>e. e \<noteq> None) errors =
            (\<not> list_all (\<lambda>x. \<exists>y. TicketSerializer_run_validation max_value s x = Inr y) xs)"
    using TicketSerializer_run_validation_Inr(1) TicketSerializer_run_validation_Inl by blast
  have "list_all (\<lambda>x. \<exists>y. TicketSerializer_run_validation max_value s x = Inr y) xs \<Longrightarrow>
      filter (\<lambda>x. \<exists>y. TicketSerializer_run_validation max_value s x = Inr y) xs = xs"
    by (simp add: list_all_iff)
  with run ex show ?thesis by (simp add: ListSerializer_run_validation_def)
qed

lemma ListSerializer_run_validation_Inr:
  "ListSerializer_run_validation b (TicketSerializer_run_validation max_value s) xs = Inr ys \<Longrightarrow>
     ys = xs \<and> list_all (\<lambda>x. \<exists>y. TicketSerializer_run_validation max_value s x = Inr y) xs"
  by (simp add: tickets_run_validation split: if_splits)

lemma ListSerializer_run_validation_Inl:
  "ListSerializer_run_validation b (TicketSerializer_run_validation max_value s) xs = Inl e \<Longrightarrow>
     \<exists>d. e = ValidationError d"
  by (auto simp: tickets_run_validation split: if_splits)

lemma ListSerializer_run_validation_ok:
  "list_all (\<lambda>x. \<exists>y. TicketSerializer_run_validation max_value s x = Inr y) xs \<Longrightarrow>
     ListSerializer_run_validation True (TicketSerializer_run_validation max_value s) xs = Inr xs"
  by (simp add: tickets_run_validation)

lemma OrderSerializer_validate_Inr:
  "OrderSerializer_validate data = Inr v \<Longrightarrow> v = data"
  by (auto simp: OrderSerializer_validate_def split: option.splits if_splits)

lemma OrderSerializer_is_valid_Inr:
  assumes "OrderSerializer_is_valid max_value s data = Inr v"
  shows "v = data"
proof -
  from assms obtain ts ts' where ts: "od_tickets data = Some ts"
    and l: "ListSerializer_run_validation tickets_allow_empty (TicketSerializer_run_validation max_value s) ts = Inr ts'"
    and v: "OrderSerializer_validate (data\<lparr>od_tickets := Some ts'\<rparr>) = Inr v"
    by (auto simp: OrderSerializer_is_valid_def split: option.splits sum.splits)
  from l have "ts' = ts" using ListSerializer_run_validation_Inr by blast
  with ts have "data\<lparr>od_tickets := Some ts'\<rparr> = data" by simp
  with v OrderSerializer_validate_Inr show ?thesis by metis
qed

lemma OrderViewSet_create_cases:
  obtains (rejected) e where "OrderSerializer_is_valid max_value s data = Inl e"
      "OrderViewSet_create max_value now u data s = (Inl e, s)"
  | (saved) "OrderSerializer_is_valid max_value s data = Inr data"
      "OrderViewSet_create max_value now u data s = OrderSerializer_create now u data s"
proof (cases "OrderSerializer_is_valid max_value s data")
  case (Inl e)
  then show ?thesis using rejected by (simp add: OrderViewSet_create_def)
next
  case (Inr v)
  with OrderSerializer_is_valid_Inr have "v = data" by blast
  with Inr show ?thesis using saved by (simp add: OrderViewSet_create_def)
qed

section \<open>C1: seats are unique in every reachable store\<close>

text \<open>
  C1. In every reachable state of the store no two persisted tickets have the same
  (flight, row, seat) triple: every operation, order creation with its tickets in
  particular, keeps the triples distinct.
\<close>

theorem reachable_seats_unique: "reachable s \<Longrightarrow> seats_unique s"
proof (induction rule: reachable.induct)
  case init
  show ?case by (simp add: seats_unique_def)
next
  case (book s max_value now u data)
  show ?case
  proof (cases rule: OrderViewSet_create_cases
      [where max_value = max_value and s = s and data = data and now = now and u = u])
    case (rejected e)
    with book.IH show ?thesis by simp
  next
    case saved
    with OrderSerializer_create_unique [OF book.IH] show ?thesis by simp
  qed
next
  case (create s now u data)
  from create.IH show ?case by (rule OrderSerializer_create_unique)
next
  case (insert s ord td p)
  from insert.IH show ?case by (rule Ticket_objects_create_unique)
next
  case (delete s oid)
  then show ?case by (simp add: seats_unique_def Order_delete_def distinct_map_filter)
qed

text \<open>The definitions a concrete run unfolds.\<close>

lemmas eval_defs =
  OrderViewSet_create_def OrderSerializer_is_valid_def ListSerializer_run_validation_def
  tickets_allow_empty_def TicketSerializer_run_validation_def
  TicketSerializer_to_internal_value_def IntegerField_run_validation_def
  ChoiceField_run_validation_def RelatedField_run_validation_def TICKET_CLASS_CHOICES_def
  UniqueTogetherValidator_def TicketSerializer_validate_def truthy_obj_def truthy_int_def
  OrderSerializer_validate_def OrderSerializer_create_def atomic_def Order_objects_create_def
  Ticket_objects_create_def seat_exists_def seat_key_def next_id_def price_for_def
  price_mapping_def request_key_def Let_def

text \<open>
  The store after the booking of the repository's test (row 2 seat 6 in first class, row 3
  seat 6 in economy, on one flight of a 30 by 6 airplane) is reachable, and its seats are
  unique.
\<close>

theorem reachable_seats_unique_witness:
  "reachable
     \<lparr>orders = [\<lparr>order_id = 1, order_created_at = 7, order_user = 4\<rparr>],
      tickets =
        [\<lparr>ticket_id = 1, ticket_row = 2, ticket_seat = 6, ticket_class = ''first'',
          ticket_price = 300, ticket_flight = 1, ticket_order = 1\<rparr>,
         \<lparr>ticket_id = 2, ticket_row = 3, ticket_seat = 6, ticket_class = ''economy'',
          ticket_price = 100, ticket_flight = 1, ticket_order = 1\<rparr>]\<rparr> \<and>
   seats_unique
     \<lparr>orders = [\<lparr>order_id = 1, order_created_at = 7, order_user = 4\<rparr>],
      tickets =
        [\<lparr>ticket_id = 1, ticket_row = 2, ticket_seat = 6, ticket_class = ''first'',
          ticket_price = 300, ticket_flight = 1, ticket_order = 1\<rparr>,
         \<lparr>ticket_id = 2, ticket_row = 3, ticket_seat = 6, ticket_class = ''economy'',
          ticket_price = 100, ticket_flight = 1, ticket_order = 1\<rparr>]\<rparr>"
  (is "reachable ?S \<and> _")
proof -
  let ?f = "\<lparr>flight_id = 1, flight_airplane = \<lparr>airplane_rows = 30, airplane_seats_in_row = 6\<rparr>\<rparr>"
  let ?d = "\<lparr>od_tickets = Some
      [\<lparr>td_flight = Some ?f, td_row = Some 2, td_seat = Some 6, td_ticket_class = Some ''first''\<rparr>,
       \<lparr>td_flight = Some ?f, td_row = Some 3, td_seat = Some 6, td_ticket_class = Some ''economy''\<rparr>]\<rparr>"
  let ?u = "\<lparr>user_id = 4, is_staff = False, is_authenticated = True\<rparr>"
  have "snd (OrderViewSet_create 2147483647 7 ?u ?d \<lparr>orders = [], tickets = []\<rparr>) = ?S"
    by (simp add: eval_defs)
  with reachable.book [OF reachable.init, of 2147483647 7 ?u ?d] have r: "reachable ?S" by simp
  from reachable_seats_unique [OF r] r show ?thesis by simp
qed

section \<open>C2: order creation is all or nothing\<close>

text \<open>
  C2. Order creation is atomic. For every booking request, the serializer's \<open>create\<close>
  and the whole request path either persist the order and one ticket per request
  together, or, when a step fails after the order was created (a uniqueness violation
  on a ticket insert, say), leave the store as it was: no partial order remains.
\<close>

theorem order_creation_atomic:
  "all_or_nothing u data s (OrderSerializer_create now u data s) \<and>
   all_or_nothing u data s (OrderViewSet_create max_value now u data s)"
proof
  show "all_or_nothing u data s (OrderSerializer_create now u data s)"
    by (rule OrderSerializer_create_all_or_nothing)
  show "all_or_nothing u data s (OrderViewSet_create max_value now u data s)"
  proof (cases rule: OrderViewSet_create_cases
      [where max_value = max_value and s = s and data = data and now = now and u = u])
    case (rejected e)
    then show ?thesis by (simp add: all_or_nothing_def)
  next
    case saved
    then show ?thesis by (simp add: OrderSerializer_create_all_or_nothing)
  qed
qed


text \<open>
  A request for a free seat and for a seat that is already sold, given to \<open>create\<close>
  directly: inside the transaction the order and the first ticket are written, the second
  insert raises \<open>IntegrityError\<close>, and the store comes back unchanged.
\<close>

theorem order_creation_atomic_witness:
  "OrderSerializer_create 9 \<lparr>user_id = 5, is_staff = False, is_authenticated = True\<rparr>
     \<lparr>od_tickets = Some
        [\<lparr>td_flight = Some \<lparr>flight_id = 1, flight_airplane =
              \<lparr>airplane_rows = 30, airplane_seats_in_row = 6\<rparr>\<rparr>,
           td_row = Some 4, td_seat = Some 1, td_ticket_class = Some ''business''\<rparr>,
         \<lparr>td_flight = Some \<lparr>flight_id = 1, flight_airplane =
              \<lparr>airplane_rows = 30, airplane_seats_in_row = 6\<rparr>\<rparr>,
           td_row = Some 2, td_seat = Some 6, td_ticket_class = None\<rparr>]\<rparr>
     \<lparr>orders = [\<lparr>order_id = 1, order_created_at = 7, order_user = 4\<rparr>],
      tickets =
        [\<lparr>ticket_id = 1, ticket_row = 2, ticket_seat = 6, ticket_class = ''first'',
          ticket_price = 300, ticket_flight = 1, ticket_order = 1\<rparr>]\<rparr> =
   (Inl IntegrityError,
     \<lparr>orders = [\<lparr>order_id = 1, order_created_at = 7, order_user = 4\<rparr>],
      tickets =
        [\<lparr>ticket_id = 1, ticket_row = 2, ticket_seat = 6, ticket_class = ''first'',
          ticket_price = 300, ticket_flight = 1, ticket_order = 1\<rparr>]\<rparr>)"
  (is "OrderSerializer_create 9 ?u ?d ?s = _")
proof -
  have body: "create_tickets (fst (Order_objects_create 9 ?u ?s))
      (the (od_tickets ?d)) (snd (Order_objects_create 9 ?u ?s)) =
    (Inl IntegrityError,
     \<lparr>orders = [\<lparr>order_id = 1, order_created_at = 7, order_user = 4\<rparr>,
                \<lparr>order_id = 2, order_created_at = 9, order_user = 5\<rparr>],
      tickets =
        [\<lparr>ticket_id = 1, ticket_row = 2, ticket_seat = 6, ticket_class = ''first'',
          ticket_price = 300, ticket_flight = 1, ticket_order = 1\<rparr>,
         \<lparr>ticket_id = 2, ticket_row = 4, ticket_seat = 1, ticket_class = ''business'',
          ticket_price = 200, ticket_flight = 1, ticket_order = 2\<rparr>]\<rparr>)"
    by (simp add: eval_defs)
  have failed: "fst (OrderSerializer_create 9 ?u ?d ?s) = Inl IntegrityError"
    by (simp add: eval_defs)
  from order_creation_atomic [of ?u ?d ?s 9]
  have "all_or_nothing ?u ?d ?s (OrderSerializer_create 9 ?u ?d ?s)" by (rule conjunct1)
  with failed show ?thesis
    by (cases "OrderSerializer_create 9 ?u ?d ?s") (simp add: all_or_nothing_def)
qed

section \<open>C3: a batch that asks for one seat twice\<close>

text \<open>
  C3 as stated does not hold: validation looks each request up among the persisted
  tickets only, so a batch that asks twice for row 2 seat 6 of one flight, free in the
  store and inside the airplane, passes \<open>is_valid\<close>.
\<close>

theorem duplicate_batch_counterexample:
  "\<not> distinct (map request_key
       [\<lparr>td_flight = Some \<lparr>flight_id = 1, flight_airplane =
             \<lparr>airplane_rows = 30, airplane_seats_in_row = 6\<rparr>\<rparr>,
          td_row = Some 2, td_seat = Some 6, td_ticket_class = Some ''first''\<rparr>,
        \<lparr>td_flight = Some \<lparr>flight_id = 1, flight_airplane =
             \<lparr>airplane_rows = 30, airplane_seats_in_row = 6\<rparr>\<rparr>,
          td_row = Some 2, td_seat = Some 6, td_ticket_class = Some ''economy''\<rparr>]) \<and>
   OrderSerializer_is_valid 2147483647 \<lparr>orders = [], tickets = []\<rparr>
     \<lparr>od_tickets = Some
       [\<lparr>td_flight = Some \<lparr>flight_id = 1, flight_airplane =
             \<lparr>airplane_rows = 30, airplane_seats_in_row = 6\<rparr>\<rparr>,
          td_row = Some 2, td_seat = Some 6, td_ticket_class = Some ''first''\<rparr>,
        \<lparr>td_flight = Some \<lparr>flight_id = 1, flight_airplane =
             \<lparr>airplane_rows = 30, airplane_seats_in_row = 6\<rparr>\<rparr>,
          td_row = Some 2, td_seat = Some 6, td_ticket_class = Some ''economy''\<rparr>]\<rparr> =
   Inr \<lparr>od_tickets = Some
       [\<lparr>td_flight = Some \<lparr>flight_id = 1, flight_airplane =
             \<lparr>airplane_rows = 30, airplane_seats_in_row = 6\<rparr>\<rparr>,
          td_row = Some 2, td_seat = Some 6, td_ticket_class = Some ''first''\<rparr>,
        \<lparr>td_flight = Some \<lparr>flight_id = 1, flight_airplane =
             \<lparr>airplane_rows = 30, airplane_seats_in_row = 6\<rparr>\<rparr>,
          td_row = Some 2, td_seat = Some 6, td_ticket_class = Some ''economy''\<rparr>]\<rparr>"
  by (simp add: eval_defs)

text \<open>
  C3, amended. For every booking request whose ticket list contains two ticket requests
  with the same (flight, row, seat), order creation fails at the insert with the storage
  layer's \<open>IntegrityError\<close> and is rolled back; the request ends in an error (that
  \<open>IntegrityError\<close> whenever validation accepted it) and no order or ticket is persisted.
\<close>

theorem duplicate_batch_rolled_back:
  assumes "od_tickets data = Some tds" and "\<not> distinct (map request_key tds)"
  shows "OrderSerializer_create now u data s = (Inl IntegrityError, s) \<and>
         (\<exists>e. OrderViewSet_create max_value now u data s = (Inl e, s)) \<and>
         (OrderSerializer_is_valid max_value s data = Inr data \<longrightarrow>
            OrderViewSet_create max_value now u data s = (Inl IntegrityError, s))"
proof -
  have c: "OrderSerializer_create now u data s = (Inl IntegrityError, s)"
  proof (cases rule: OrderSerializer_create_cases [of data now u s])
    case no_tickets
    with assms(1) show ?thesis by simp
  next
    case (rolled_back tds' ord s1 s2)
    then show ?thesis by simp
  next
    case (committed tds' ord s1 s2)
    with assms(1) have "create_tickets ord tds s1 = (Inr (), s2)" by simp
    with create_tickets_duplicate [OF assms(2), of ord s1] show ?thesis by simp
  qed
  show ?thesis
  proof (cases rule: OrderViewSet_create_cases
      [where max_value = max_value and s = s and data = data and now = now and u = u])
    case (rejected e)
    with c show ?thesis by simp
  next
    case saved
    with c show ?thesis by simp
  qed
qed

theorem duplicate_batch_rolled_back_witness:
  "OrderViewSet_create 2147483647 7 \<lparr>user_id = 4, is_staff = False, is_authenticated = True\<rparr>
     \<lparr>od_tickets = Some
       [\<lparr>td_flight = Some \<lparr>flight_id = 1, flight_airplane =
             \<lparr>airplane_rows = 30, airplane_seats_in_row = 6\<rparr>\<rparr>,
          td_row = Some 2, td_seat = Some 6, td_ticket_class = Some ''first''\<rparr>,
        \<lparr>td_flight = Some \<lparr>flight_id = 1, flight_airplane =
             \<lparr>airplane_rows = 30, airplane_seats_in_row = 6\<rparr>\<rparr>,
          td_row = Some 2, td_seat = Some 6, td_ticket_class = Some ''economy''\<rparr>]\<rparr>
     \<lparr>orders = [], tickets = []\<rparr> =
   (Inl IntegrityError, \<lparr>orders = [], tickets = []\<rparr>)"
  (is "OrderViewSet_create 2147483647 7 ?u ?d ?s = _")
proof -
  have dup: "\<not> distinct (map request_key (the (od_tickets ?d)))"
    by (simp add: request_key_def)
  have valid: "OrderSerializer_is_valid 2147483647 ?s ?d = Inr ?d"
    by (simp add: eval_defs)
  from duplicate_batch_rolled_back [of ?d "the (od_tickets ?d)" 7 ?u ?s] dup valid
  show ?thesis by simp
qed

section \<open>C4: the empty ticket list\<close>

text \<open>
  C4 fails on the code. The request \<open>{"tickets": []}\<close> passes \<open>is_valid\<close>: the field
  \<open>tickets\<close> allows an empty list and \<open>OrderSerializer.validate\<close> skips a falsy list.
  \<open>create\<close> then persists an order that has no ticket.
\<close>

theorem empty_ticket_list_accepted:
  "OrderSerializer_is_valid 2147483647 \<lparr>orders = [], tickets = []\<rparr> \<lparr>od_tickets = Some []\<rparr> =
     Inr \<lparr>od_tickets = Some []\<rparr> \<and>
   OrderViewSet_create 2147483647 7 \<lparr>user_id = 4, is_staff = False, is_authenticated = True\<rparr>
     \<lparr>od_tickets = Some []\<rparr> \<lparr>orders = [], tickets = []\<rparr> =
   (Inr \<lparr>order_id = 1, order_created_at = 7, order_user = 4\<rparr>,
    \<lparr>orders = [\<lparr>order_id = 1, order_created_at = 7, order_user = 4\<rparr>], tickets = []\<rparr>)"
  by (simp add: eval_defs)

text \<open>The same on every store, for every user: an order is added and nothing else.\<close>

lemma empty_ticket_list_persists_order:
  "\<exists>ord. OrderViewSet_create max_value now u \<lparr>od_tickets = Some []\<rparr> s =
     (Inr ord, s\<lparr>orders := orders s @ [ord]\<rparr>)"
  by (simp add: eval_defs)

section \<open>C5: tickets of more than one flight\<close>

lemma those_map_Some:
  "those (map f xs) = Some ys \<Longrightarrow> map Some ys = map f xs"
proof (induction xs arbitrary: ys)
  case Nil
  then show ?case by simp
next
  case (Cons x xs)
  then show ?case by (auto split: option.splits)
qed

lemma those_map_present:
  "list_all (\<lambda>x. f x \<noteq> None) xs \<Longrightarrow> \<exists>ys. those (map f xs) = Some ys"
  by (induction xs) auto

lemma referenced_flights_those:
  assumes "those (map td_flight tds) = Some fs"
  shows "referenced_flights tds = flight_id ` set fs"
proof -
  from those_map_Some [OF assms] have "Some ` set fs = td_flight ` set tds"
    by (metis set_map)
  then have "(\<Union>td \<in> set tds. set_option (td_flight td)) = set fs"
    by (auto simp: set_eq_iff image_iff) (metis option.set_intros option.simps(15) singletonD)+
  then show ?thesis by (simp add: referenced_flights_def)
qed

lemma OrderSerializer_validate_flights:
  assumes "od_tickets data = Some tds" and "list_all (\<lambda>td. td_flight td \<noteq> None) tds"
  shows "OrderSerializer_validate data =
     (if 1 < card (referenced_flights tds)
      then Inl (ValidationError (Message ''All tickets must be in the same flight.''))
      else Inr data)"
proof -
  from those_map_present [OF assms(2)] obtain fs where fs: "those (map td_flight tds) = Some fs"
    by blast
  have card: "length (remdups (map flight_id fs)) = card (referenced_flights tds)"
    by (simp add: referenced_flights_those [OF fs] length_remdups_card_conv)
  show ?thesis
  proof (cases "tds = []")
    case True
    with assms(1) show ?thesis
      by (simp add: OrderSerializer_validate_def referenced_flights_def)
  next
    case False
    with assms(1) fs card show ?thesis by (simp add: OrderSerializer_validate_def)
  qed
qed

lemma OrderSerializer_is_valid_Inl:
  assumes "OrderSerializer_is_valid max_value s data = Inl e"
  shows "\<exists>d. e = ValidationError d"
proof (cases "od_tickets data")
  case None
  with assms show ?thesis by (auto simp: OrderSerializer_is_valid_def)
next
  case (Some ts)
  show ?thesis
  proof (cases "ListSerializer_run_validation tickets_allow_empty (TicketSerializer_run_validation max_value s) ts")
    case (Inl e')
    with Some assms have "e = e'" by (simp add: OrderSerializer_is_valid_def)
    with Inl ListSerializer_run_validation_Inl show ?thesis by blast
  next
    case (Inr ts')
    from ListSerializer_run_validation_Inr [OF Inr]
    have eq: "ts' = ts" and ok: "list_all (\<lambda>x. \<exists>y. TicketSerializer_run_validation max_value s x = Inr y) ts"
      by simp_all
    from ok have "list_all (\<lambda>td. td_flight td \<noteq> None) ts"
      using TicketSerializer_run_validation_Inr(3) by (fastforce simp: list_all_iff)
    from OrderSerializer_validate_flights [OF Some this]
    have "OrderSerializer_validate data = Inl e \<Longrightarrow> ?thesis"
      by (auto split: if_splits)
    moreover from Some eq have "data\<lparr>od_tickets := Some ts'\<rparr> = data" by simp
    ultimately show ?thesis
      using assms Some Inr by (simp add: OrderSerializer_is_valid_def)
  qed
qed






section \<open>C6: the seat map check of \<open>TicketSerializer.validate\<close>\<close>

text \<open>What the check does for a request that carries a flight, a row and a seat.\<close>

lemma TicketSerializer_validate_eq:
  assumes "td_flight data = Some f" and "td_row data = Some r" and "td_seat data = Some st"
  shows "TicketSerializer_validate s data =
     (if r = 0 \<or> st = 0
      then Inl (ValidationError (Message ''Flight, row, and seat must be provided.''))
      else if seat_exists s (flight_id f) r st
      then Inl (ValidationError
             (FieldMessage ''seat'' ''This seat is already taken for the selected flight.''))
      else if r < 1 \<or> r > airplane_rows (flight_airplane f)
      then Inl (ValidationError (Message
             (''Row number must be between 1 and '' @
              str_int (airplane_rows (flight_airplane f)) @ ''.'')))
      else if st < 1 \<or> st > airplane_seats_in_row (flight_airplane f)
      then Inl (ValidationError (Message
             (''Seat number must be between 1 and '' @
              str_int (airplane_seats_in_row (flight_airplane f)) @ ''.'')))
      else Inr data)"
  using assms
  by (simp add: TicketSerializer_validate_def truthy_obj_def truthy_int_def Let_def)

text \<open>A free seat inside the airplane is accepted.\<close>

lemma TicketSerializer_validate_in_range:
  assumes "td_flight data = Some f" and "td_row data = Some r" and "td_seat data = Some st"
    and "1 \<le> r" and "r \<le> airplane_rows (flight_airplane f)"
    and "1 \<le> st" and "st \<le> airplane_seats_in_row (flight_airplane f)"
    and "\<not> seat_exists s (flight_id f) r st"
  shows "TicketSerializer_validate s data = Inr data"
  using assms by (simp add: TicketSerializer_validate_eq)

text \<open>
  \<open>validate\<close> on a row outside the airplane, other than row 0, of a free seat whose
  seat number is not 0, answers with the bounds of the rows; likewise for a seat number
  outside the row.
\<close>

lemma TicketSerializer_validate_row_out_of_range:
  assumes "td_flight data = Some f" and "td_row data = Some r" and "td_seat data = Some st"
    and "r < 0 \<or> r > airplane_rows (flight_airplane f)" and "r \<noteq> 0" and "st \<noteq> 0"
    and "\<not> seat_exists s (flight_id f) r st"
  shows "TicketSerializer_validate s data =
     Inl (ValidationError (Message
       (''Row number must be between 1 and '' @
        str_int (airplane_rows (flight_airplane f)) @ ''.'')))"
  using assms by (auto simp: TicketSerializer_validate_eq)

lemma TicketSerializer_validate_seat_out_of_range:
  assumes "td_flight data = Some f" and "td_row data = Some r" and "td_seat data = Some st"
    and "1 \<le> r" and "r \<le> airplane_rows (flight_airplane f)"
    and "st < 0 \<or> st > airplane_seats_in_row (flight_airplane f)" and "st \<noteq> 0"
    and "\<not> seat_exists s (flight_id f) r st"
  shows "TicketSerializer_validate s data =
     Inl (ValidationError (Message
       (''Seat number must be between 1 and '' @
        str_int (airplane_seats_in_row (flight_airplane f)) @ ''.'')))"
  using assms by (auto simp: TicketSerializer_validate_eq)

text \<open>The messages of the repository's tests: row 31 and seat 7 on a 30 by 6 airplane.\<close>

lemma TicketSerializer_validate_row_31:
  "TicketSerializer_validate \<lparr>orders = [], tickets = []\<rparr>
     \<lparr>td_flight = Some \<lparr>flight_id = 1, flight_airplane =
          \<lparr>airplane_rows = 30, airplane_seats_in_row = 6\<rparr>\<rparr>,
      td_row = Some 31, td_seat = Some 6, td_ticket_class = Some ''first''\<rparr> =
   Inl (ValidationError (Message ''Row number must be between 1 and 30.''))"
  by (simp add: TicketSerializer_validate_eq seat_exists_def str_int_def str_nat.simps)

lemma TicketSerializer_validate_seat_7:
  "TicketSerializer_validate \<lparr>orders = [], tickets = []\<rparr>
     \<lparr>td_flight = Some \<lparr>flight_id = 1, flight_airplane =
          \<lparr>airplane_rows = 30, airplane_seats_in_row = 6\<rparr>\<rparr>,
      td_row = Some 30, td_seat = Some 7, td_ticket_class = Some ''first''\<rparr> =
   Inl (ValidationError (Message ''Seat number must be between 1 and 6.''))"
  by (simp add: TicketSerializer_validate_eq seat_exists_def str_int_def str_nat.simps)

text \<open>
  C6 fails on the code at row 0 (and at seat 0). The value 0 is admitted by the
  \<open>PositiveIntegerField\<close>, but it is falsy, so the guard \<open>not all([flight, row, seat])\<close>
  answers "Flight, row, and seat must be provided." before the comparison
  \<open>row < 1\<close> is reached; the bounds of the airplane are not cited.
\<close>

theorem row_zero_reported_as_missing:
  "TicketSerializer_validate \<lparr>orders = [], tickets = []\<rparr>
     \<lparr>td_flight = Some \<lparr>flight_id = 1, flight_airplane =
          \<lparr>airplane_rows = 30, airplane_seats_in_row = 6\<rparr>\<rparr>,
      td_row = Some 0, td_seat = Some 6, td_ticket_class = Some ''first''\<rparr> =
   Inl (ValidationError (Message ''Flight, row, and seat must be provided.''))"
  by (simp add: TicketSerializer_validate_eq)

text \<open>
  On the request path the fields run before \<open>validate\<close>. Row 0 passes
  \<open>min_value=0\<close> and meets the same guard; a negative row is refused by the field, and
  a class that is not a choice is refused by the field as well.
\<close>

lemma row_zero_on_request_path:
  "TicketSerializer_run_validation 2147483647 \<lparr>orders = [], tickets = []\<rparr>
     \<lparr>td_flight = Some \<lparr>flight_id = 1, flight_airplane =
          \<lparr>airplane_rows = 30, airplane_seats_in_row = 6\<rparr>\<rparr>,
      td_row = Some 0, td_seat = Some 6, td_ticket_class = Some ''first''\<rparr> =
   Inl (ValidationError (Message ''Flight, row, and seat must be provided.''))"
  by (simp add: eval_defs)

lemma negative_row_on_request_path:
  "TicketSerializer_run_validation 2147483647 \<lparr>orders = [], tickets = []\<rparr>
     \<lparr>td_flight = Some \<lparr>flight_id = 1, flight_airplane =
          \<lparr>airplane_rows = 30, airplane_seats_in_row = 6\<rparr>\<rparr>,
      td_row = Some (- 1), td_seat = Some 6, td_ticket_class = Some ''first''\<rparr> =
   Inl (ValidationError
     (FieldErrors [(''row'', ''Ensure this value is greater than or equal to 0.'')]))"
  by (simp add: eval_defs)

lemma unknown_class_on_request_path:
  "TicketSerializer_run_validation 2147483647 \<lparr>orders = [], tickets = []\<rparr>
     \<lparr>td_flight = Some \<lparr>flight_id = 1, flight_airplane =
          \<lparr>airplane_rows = 30, airplane_seats_in_row = 6\<rparr>\<rparr>,
      td_row = Some 2, td_seat = Some 6, td_ticket_class = Some ''premium''\<rparr> =
   Inl (ValidationError
     (FieldErrors [(''ticket_class'',
        CHR 0x22 # ''premium'' @ CHR 0x22 # '' is not a valid choice.'')]))"
  by (simp add: eval_defs)

text \<open>
  A seat that a persisted ticket holds is refused on the request path by the uniqueness
  validator, before \<open>validate\<close> makes its own lookup.
\<close>

lemma taken_seat_on_request_path:
  "TicketSerializer_run_validation 2147483647
     \<lparr>orders = [\<lparr>order_id = 1, order_created_at = 7, order_user = 4\<rparr>],
      tickets =
        [\<lparr>ticket_id = 1, ticket_row = 2, ticket_seat = 6, ticket_class = ''first'',
          ticket_price = 300, ticket_flight = 1, ticket_order = 1\<rparr>]\<rparr>
     \<lparr>td_flight = Some \<lparr>flight_id = 1, flight_airplane =
          \<lparr>airplane_rows = 30, airplane_seats_in_row = 6\<rparr>\<rparr>,
      td_row = Some 2, td_seat = Some 6, td_ticket_class = Some ''economy''\<rparr> =
   Inl (ValidationError (Message ''The fields row, seat, flight must make a unique set.''))"
  by (simp add: eval_defs)

section \<open>C7: prices\<close>

lemma price_for_class:
  "ticket_of ord td t \<Longrightarrow> ticket_price t = price_for (Some (ticket_class t))"
  by (cases "td_ticket_class td") (simp_all add: ticket_of_def price_for_def)

text \<open>
  C7. The price is a total function of the ticket class: 100 for economy, 200 for
  business, 300 for first, and 100 for a missing class or any other class. Every ticket
  that \<open>create\<close> persists carries the price of its class.
\<close>

theorem price_for_total:
  "price_for (Some ''economy'') = 100 \<and>
   price_for (Some ''business'') = 200 \<and>
   price_for (Some ''first'') = 300 \<and>
   price_for None = 100 \<and>
   (c \<notin> {''economy'', ''business'', ''first''} \<longrightarrow> price_for (Some c) = 100) \<and>
   (OrderSerializer_create now u data s = (Inr ord, s') \<and>
    t \<in> set (tickets s') \<and> t \<notin> set (tickets s) \<longrightarrow>
      ticket_price t = price_for (Some (ticket_class t)))"
proof (intro conjI impI)
  assume a: "OrderSerializer_create now u data s = (Inr ord, s') \<and>
    t \<in> set (tickets s') \<and> t \<notin> set (tickets s)"
  with OrderSerializer_create_all_or_nothing [of u data s now]
  obtain tds where old: "take (length (tickets s)) (tickets s') = tickets s"
    and new: "list_all2 (ticket_of ord) tds (drop (length (tickets s)) (tickets s'))"
    by (auto simp: all_or_nothing_def split: option.splits)
  have "set (tickets s') =
      set (take (length (tickets s)) (tickets s')) \<union> set (drop (length (tickets s)) (tickets s'))"
    by (metis append_take_drop_id set_append)
  with a old have "t \<in> set (drop (length (tickets s)) (tickets s'))" by auto
  with new obtain td where "ticket_of ord td t"
    by (auto simp: list_all2_conv_all_nth in_set_conv_nth)
  then show "ticket_price t = price_for (Some (ticket_class t))" by (rule price_for_class)
qed (auto simp: price_for_def price_mapping_def)

theorem price_for_total_witness:
  "''premium'' \<notin> {''economy'', ''business'', ''first''} \<and>
   price_for (Some ''premium'') = 100 \<and>
   OrderSerializer_create 7 \<lparr>user_id = 4, is_staff = False, is_authenticated = True\<rparr>
     \<lparr>od_tickets = Some
       [\<lparr>td_flight = Some \<lparr>flight_id = 1, flight_airplane =
             \<lparr>airplane_rows = 30, airplane_seats_in_row = 6\<rparr>\<rparr>,
          td_row = Some 2, td_seat = Some 6, td_ticket_class = Some ''first''\<rparr>]\<rparr>
     \<lparr>orders = [], tickets = []\<rparr> =
     (Inr \<lparr>order_id = 1, order_created_at = 7, order_user = 4\<rparr>,
      \<lparr>orders = [\<lparr>order_id = 1, order_created_at = 7, order_user = 4\<rparr>],
       tickets = [\<lparr>ticket_id = 1, ticket_row = 2, ticket_seat = 6, ticket_class = ''first'',
          ticket_price = 300, ticket_flight = 1, ticket_order = 1\<rparr>]\<rparr>) \<and>
   ticket_price \<lparr>ticket_id = 1, ticket_row = 2, ticket_seat = 6, ticket_class = ''first'',
          ticket_price = 300, ticket_flight = 1, ticket_order = 1\<rparr> =
     price_for (Some (ticket_class \<lparr>ticket_id = 1, ticket_row = 2, ticket_seat = 6,
          ticket_class = ''first'', ticket_price = 300, ticket_flight = 1, ticket_order = 1\<rparr>))"
  (is "?fresh \<and> ?unknown \<and> OrderSerializer_create 7 ?u ?d ?s = (Inr ?ord, ?s') \<and> ?price")
proof -
  let ?t = "\<lparr>ticket_id = 1, ticket_row = 2, ticket_seat = 6, ticket_class = ''first'',
          ticket_price = 300, ticket_flight = 1, ticket_order = 1\<rparr>"
  have fresh: ?fresh by simp
  have run: "OrderSerializer_create 7 ?u ?d ?s = (Inr ?ord, ?s')" by (simp add: eval_defs)
  have mem: "?t \<in> set (tickets ?s') \<and> ?t \<notin> set (tickets ?s)" by simp
  note inst = price_for_total [of "''premium''" 7 ?u ?d ?s ?ord ?s' ?t]
  from inst fresh have ?unknown by blast
  moreover from inst run mem have ?price by blast
  ultimately show ?thesis using fresh run by blast
qed

section \<open>C8: which orders a caller sees\<close>

lemma get_object_Some:
  "get_object u pk s = Some ord \<Longrightarrow> ord \<in> set (get_queryset u s) \<and> order_id ord = pk"
  by (auto simp: get_object_def find_Some_iff in_set_conv_nth)

lemma get_object_None:
  "(get_object u pk s = None) = (\<not> (\<exists>ord. ord \<in> set (get_queryset u s) \<and> order_id ord = pk))"
  by (auto simp: get_object_def find_None_iff)

text \<open>
  C8. Listing: a caller who is not staff and is authenticated receives exactly the orders
  whose user is the caller, each once; a staff caller receives all orders. Retrieval by
  primary key answers with an order of that list that has the key, and finds none only
  when the list holds no order with the key.
\<close>

theorem get_queryset_visibility:
  "(\<not> is_staff u \<and> is_authenticated u \<longrightarrow>
      set (get_queryset u s) = {ord. ord \<in> set (orders s) \<and> order_user ord = user_id u}) \<and>
   (is_staff u \<longrightarrow> set (get_queryset u s) = set (orders s)) \<and>
   distinct (get_queryset u s) \<and>
   (get_object u pk s = Some ord \<longrightarrow>
      ord \<in> set (get_queryset u s) \<and> order_id ord = pk) \<and>
   ((get_object u pk s = None) =
      (\<not> (\<exists>ord. ord \<in> set (get_queryset u s) \<and> order_id ord = pk)))"
proof (intro conjI impI)
  show "(get_object u pk s = None) =
      (\<not> (\<exists>ord. ord \<in> set (get_queryset u s) \<and> order_id ord = pk))"
    by (rule get_object_None)
next
  assume "get_object u pk s = Some ord"
  then show "ord \<in> set (get_queryset u s)" and "order_id ord = pk"
    using get_object_Some by blast+
qed (auto simp: get_queryset_def Order_ordering_def)

text \<open>
  Two orders, of users 4 and 5. User 4, not staff, lists and retrieves the first one only;
  a staff caller sees both.
\<close>

theorem get_queryset_visibility_witness:
  "set (get_queryset \<lparr>user_id = 4, is_staff = False, is_authenticated = True\<rparr>
       \<lparr>orders = [\<lparr>order_id = 1, order_created_at = 7, order_user = 4\<rparr>,
                  \<lparr>order_id = 2, order_created_at = 9, order_user = 5\<rparr>],
        tickets = []\<rparr>) =
     {\<lparr>order_id = 1, order_created_at = 7, order_user = 4\<rparr>} \<and>
   get_object \<lparr>user_id = 4, is_staff = False, is_authenticated = True\<rparr> 2
       \<lparr>orders = [\<lparr>order_id = 1, order_created_at = 7, order_user = 4\<rparr>,
                  \<lparr>order_id = 2, order_created_at = 9, order_user = 5\<rparr>],
        tickets = []\<rparr> = None \<and>
   set (get_queryset \<lparr>user_id = 6, is_staff = True, is_authenticated = True\<rparr>
       \<lparr>orders = [\<lparr>order_id = 1, order_created_at = 7, order_user = 4\<rparr>,
                  \<lparr>order_id = 2, order_created_at = 9, order_user = 5\<rparr>],
        tickets = []\<rparr>) =
     {\<lparr>order_id = 1, order_created_at = 7, order_user = 4\<rparr>,
      \<lparr>order_id = 2, order_created_at = 9, order_user = 5\<rparr>}"
  (is "set (get_queryset ?u ?s) = _ \<and> get_object ?u 2 ?s = None \<and> set (get_queryset ?a ?s) = _")
proof -
  have plain: "\<not> is_staff ?u \<and> is_authenticated ?u" by simp
  have staff: "is_staff ?a" by simp
  from get_queryset_visibility [of ?u ?s 2] plain
  have own: "set (get_queryset ?u ?s) = {ord. ord \<in> set (orders ?s) \<and> order_user ord = user_id ?u}"
    and none: "(get_object ?u 2 ?s = None) =
      (\<not> (\<exists>ord. ord \<in> set (get_queryset ?u ?s) \<and> order_id ord = 2))"
    by blast+
  from get_queryset_visibility [of ?a ?s] staff
  have all: "set (get_queryset ?a ?s) = set (orders ?s)" by blast
  have 1: "set (get_queryset ?u ?s) = {\<lparr>order_id = 1, order_created_at = 7, order_user = 4\<rparr>}"
    unfolding own by auto
  have 2: "get_object ?u 2 ?s = None" unfolding none 1 by simp
  have 3: "set (get_queryset ?a ?s) = {\<lparr>order_id = 1, order_created_at = 7, order_user = 4\<rparr>,
      \<lparr>order_id = 2, order_created_at = 9, order_user = 5\<rparr>}"
    unfolding all by simp
  from 1 2 3 show ?thesis by blast
qed

section \<open>C9 and C10: the times of a flight\<close>

text \<open>
  C9. With both times present, a flight whose departure is before the current time, or
  whose arrival is not after its departure, is rejected with a validation error; a flight
  whose departure is not in the past and is before its arrival passes.
\<close>

theorem FlightSerializer_validate_times:
  assumes "departure_time data = Some d" and "arrival_time data = Some a"
  shows "(d < now \<or> a \<le> d \<longrightarrow>
            (\<exists>m. FlightSerializer_validate now data = Inl (ValidationError m))) \<and>
         (now \<le> d \<and> d < a \<longrightarrow> FlightSerializer_validate now data = Inr data)"
  using assms by (auto simp: FlightSerializer_validate_def)

text \<open>
  On the clock 100: departure 50 and arrival 170 is refused (the past), departure 200 and
  arrival 200 is refused (no time between), departure 200 and arrival 320 passes.
\<close>

theorem FlightSerializer_validate_times_witness:
  "FlightSerializer_validate 100 \<lparr>departure_time = Some 50, arrival_time = Some 170\<rparr> =
     Inl (ValidationError (Message ''The time of departure cannot be in the past'')) \<and>
   FlightSerializer_validate 100 \<lparr>departure_time = Some 200, arrival_time = Some 200\<rparr> =
     Inl (ValidationError (Message ''Arrival time must be after departure time.'')) \<and>
   FlightSerializer_validate 100 \<lparr>departure_time = Some 200, arrival_time = Some 320\<rparr> =
     Inr \<lparr>departure_time = Some 200, arrival_time = Some 320\<rparr>"
proof -
  from FlightSerializer_validate_times
    [of "\<lparr>departure_time = Some 200, arrival_time = Some 320\<rparr>" 200 320 100]
  have "FlightSerializer_validate 100 \<lparr>departure_time = Some 200, arrival_time = Some 320\<rparr> =
     Inr \<lparr>departure_time = Some 200, arrival_time = Some 320\<rparr>"
    by simp
  moreover
  from FlightSerializer_validate_times
    [of "\<lparr>departure_time = Some 50, arrival_time = Some 170\<rparr>" 50 170 100]
  have "\<exists>m. FlightSerializer_validate 100 \<lparr>departure_time = Some 50, arrival_time = Some 170\<rparr> =
     Inl (ValidationError m)"
    by simp
  then have "FlightSerializer_validate 100 \<lparr>departure_time = Some 50, arrival_time = Some 170\<rparr> =
     Inl (ValidationError (Message ''The time of departure cannot be in the past''))"
    by (simp add: FlightSerializer_validate_def)
  moreover
  have "FlightSerializer_validate 100 \<lparr>departure_time = Some 200, arrival_time = Some 200\<rparr> =
     Inl (ValidationError (Message ''Arrival time must be after departure time.''))"
    by (simp add: FlightSerializer_validate_def)
  ultimately show ?thesis by blast
qed



end
